theory Spec2Isabelle
  imports Complex_Main "HOL-Library.Multiset" "HOL-Library.Product_Lexorder"
    "HOL-Library.List_Lexorder" "HOL-Library.Char_ord"
begin

section \<open>Numeric primitives\<close>

text \<open>
  A pandas float is a real number or NaN; NaN is \<open>None\<close>. A Series is the list of its
  cells. The reductions \<open>mean\<close>, \<open>std\<close>, \<open>min\<close> and \<open>max\<close> of pandas skip NaN cells;
  \<open>mean\<close>, \<open>min\<close> and \<open>max\<close> of no value and the sample standard deviation
  (\<open>ddof = 1\<close>) of fewer than two values are NaN. Arithmetic is exact: binary
  floating-point rounding is outside the model.
\<close>

type_synonym pyfloat = "real option"

type_synonym series = "pyfloat list"

datatype py_error = ZeroDivisionError | IndexError | ValueError | TypeError

fun notna_values :: "series \<Rightarrow> real list" where
  "notna_values [] = []"
| "notna_values (None # cs) = notna_values cs"
| "notna_values (Some x # cs) = x # notna_values cs"

definition pd_mean :: "series \<Rightarrow> pyfloat" where
  "pd_mean s =
     (let v = notna_values s
      in if v = [] then None else Some (sum_list v / real (length v)))"

definition pd_std :: "series \<Rightarrow> pyfloat" where
  "pd_std s =
     (let v = notna_values s; n = length v
      in if n < 2 then None
         else (let m = sum_list v / real n
               in Some (sqrt (sum_list (map (\<lambda>x. (x - m)\<^sup>2) v) / real (n - 1)))))"

definition pd_min :: "series \<Rightarrow> pyfloat" where
  "pd_min s = (case notna_values s of [] \<Rightarrow> None | x # xs \<Rightarrow> Some (fold min xs x))"

definition pd_max :: "series \<Rightarrow> pyfloat" where
  "pd_max s = (case notna_values s of [] \<Rightarrow> None | x # xs \<Rightarrow> Some (fold max xs x))"

definition isna_all :: "series \<Rightarrow> bool" where
  "isna_all s = list_all (\<lambda>c. c = None) s"

text \<open>\<open>safe_divide\<close>, \<open>safe_mean\<close> and \<open>safe_std\<close> of \<open>quadrant_analyzer.py\<close>.
  The denominators passed to \<open>safe_divide\<close> are row counts, which are never NaN.\<close>

definition safe_divide :: "real \<Rightarrow> real \<Rightarrow> real \<Rightarrow> real" where
  "safe_divide numerator denominator dflt =
     (if denominator = 0 then dflt else numerator / denominator)"

definition safe_mean :: "series \<Rightarrow> pyfloat" where
  "safe_mean s = (if s = [] \<or> isna_all s then Some 0 else pd_mean s)"

definition safe_std :: "series \<Rightarrow> pyfloat" where
  "safe_std s = (if s = [] \<or> isna_all s \<or> length s < 2 then Some 0 else pd_std s)"

text \<open>Elementwise Series operations: subtracting a scalar keeps NaN, and every
  comparison with NaN is false.\<close>

definition series_sub :: "pyfloat \<Rightarrow> real \<Rightarrow> pyfloat" where
  "series_sub c t = map_option (\<lambda>x. x - t) c"

definition nan_gt :: "pyfloat \<Rightarrow> real \<Rightarrow> bool" where
  "nan_gt c t = (case c of None \<Rightarrow> False | Some x \<Rightarrow> x > t)"

definition nan_le :: "pyfloat \<Rightarrow> real \<Rightarrow> bool" where
  "nan_le c t = (case c of None \<Rightarrow> False | Some x \<Rightarrow> x \<le> t)"

definition nan_ge :: "pyfloat \<Rightarrow> real \<Rightarrow> bool" where
  "nan_ge c t = (case c of None \<Rightarrow> False | Some x \<Rightarrow> x \<ge> t)"

section \<open>Threshold classification (\<open>QuadrantAnalyzer\<close>)\<close>

text \<open>
  The analysed columns are numeric columns: a row maps a column name to a float cell.
  A metric is the dictionary built by \<open>add_custom_metric\<close>. The analyzer record holds
  the fields the analysis methods read. Of the statistics dictionary of a region the
  presentation entries (label and colour) are left out; \<open>students\<close> is the sub-frame
  of the region's rows.
\<close>

type_synonym num_row = "string \<Rightarrow> pyfloat"

record metric =
  name :: string
  subject_threshold :: real
  total_threshold :: real

record analyzer =
  df :: "num_row list"
  subject_column :: string
  total_column :: string
  custom_metrics :: "metric list"
  basic_subject_threshold :: real
  basic_total_threshold :: real

record region_stats =
  count :: nat
  percentage :: real
  subject_mean :: pyfloat
  subject_std :: pyfloat
  total_mean :: pyfloat
  total_std :: pyfloat
  students :: "num_row list"

datatype region_key = MetricQ string nat | GridR nat | RegionId nat

type_synonym quadrant_stats = "(region_key \<times> region_stats) list"

definition dropna :: "string list \<Rightarrow> num_row list \<Rightarrow> num_row list" where
  "dropna cols rs = filter (\<lambda>r. list_all (\<lambda>c. r c \<noteq> None) cols) rs"

definition column :: "string \<Rightarrow> num_row list \<Rightarrow> series" where
  "column c rs = map (\<lambda>r. r c) rs"

text \<open>The statistics dictionary as \<open>analyze_single_metric_grid\<close>,
  \<open>analyze_triple_metric_grid\<close> and \<open>analyze_basic_quadrants\<close> build it: guarded
  division, guarded subject statistics, raw total statistics.\<close>

definition guarded_stats :: "analyzer \<Rightarrow> num_row list \<Rightarrow> num_row list \<Rightarrow> region_stats" where
  "guarded_stats a clean_df studs =
     \<lparr> count = length studs,
       percentage = safe_divide (real (length studs)) (real (length clean_df)) 0 * 100,
       subject_mean =
         (if length studs > 0 then safe_mean (column (subject_column a) studs) else Some 0),
       subject_std =
         (if length studs > 0 then safe_std (column (subject_column a) studs) else Some 0),
       total_mean =
         (if length studs > 0 then pd_mean (column (total_column a) studs) else Some 0),
       total_std =
         (if length studs > 0 then pd_std (column (total_column a) studs) else Some 0),
       students = studs \<rparr>"

text \<open>The statistics dictionary as \<open>analyze_dual_metric_grid\<close> builds it: the
  percentage is a plain division (the caller has excluded a zero denominator, where
  Python raises), and all four statistics are raw pandas reductions.\<close>

definition raw_stats :: "analyzer \<Rightarrow> nat \<Rightarrow> num_row list \<Rightarrow> region_stats" where
  "raw_stats a total_students studs =
     \<lparr> count = length studs,
       percentage = real (length studs) / real total_students * 100,
       subject_mean =
         (if length studs > 0 then pd_mean (column (subject_column a) studs) else Some 0),
       subject_std =
         (if length studs > 0 then pd_std (column (subject_column a) studs) else Some 0),
       total_mean =
         (if length studs > 0 then pd_mean (column (total_column a) studs) else Some 0),
       total_std =
         (if length studs > 0 then pd_std (column (total_column a) studs) else Some 0),
       students = studs \<rparr>"

text \<open>The four quadrant masks, shared by the single-metric and the basic analysis.\<close>

definition quadrant_masks ::
  "string \<Rightarrow> string \<Rightarrow> real \<Rightarrow> real \<Rightarrow> (nat \<times> (num_row \<Rightarrow> bool)) list" where
  "quadrant_masks sc tc subject_th total_th =
     (let subject_diff = (\<lambda>r. series_sub (r sc) subject_th);
          total_diff = (\<lambda>r. series_sub (r tc) total_th)
      in [(1, \<lambda>r. nan_gt (subject_diff r) 0 \<and> nan_gt (total_diff r) 0),
          (2, \<lambda>r. nan_le (subject_diff r) 0 \<and> nan_gt (total_diff r) 0),
          (3, \<lambda>r. nan_le (subject_diff r) 0 \<and> nan_le (total_diff r) 0),
          (4, \<lambda>r. nan_gt (subject_diff r) 0 \<and> nan_le (total_diff r) 0)])"

definition analyze_single_metric_grid :: "analyzer \<Rightarrow> metric \<Rightarrow> quadrant_stats option" where
  "analyze_single_metric_grid a m =
     (let clean_df = dropna [subject_column a, total_column a] (df a)
      in if length clean_df = 0 then None
         else Some (map (\<lambda>(quadrant, mask).
                      (MetricQ (name m) quadrant, guarded_stats a clean_df (filter mask clean_df)))
                    (quadrant_masks (subject_column a) (total_column a)
                       (subject_threshold m) (total_threshold m))))"

definition analyze_basic_quadrants :: "analyzer \<Rightarrow> quadrant_stats" where
  "analyze_basic_quadrants a =
     (let clean_df = dropna [subject_column a, total_column a] (df a)
      in map (\<lambda>(quadrant, mask).
                (RegionId quadrant, guarded_stats a clean_df (filter mask clean_df)))
             (quadrant_masks (subject_column a) (total_column a)
                (basic_subject_threshold a) (basic_total_threshold a)))"

definition dual_masks ::
  "string \<Rightarrow> string \<Rightarrow> real \<Rightarrow> real \<Rightarrow> real \<Rightarrow> real \<Rightarrow> (nat \<times> (num_row \<Rightarrow> bool)) list" where
  "dual_masks sc tc subject_low total_low subject_high total_high =
     (let subject_above_high = (\<lambda>r. nan_gt (r sc) subject_high);
          subject_between = (\<lambda>r. nan_gt (r sc) subject_low \<and> nan_le (r sc) subject_high);
          subject_below_low = (\<lambda>r. nan_le (r sc) subject_low);
          total_above_high = (\<lambda>r. nan_gt (r tc) total_high);
          total_between = (\<lambda>r. nan_gt (r tc) total_low \<and> nan_le (r tc) total_high);
          total_below_low = (\<lambda>r. nan_le (r tc) total_low)
      in [(1, \<lambda>r. subject_above_high r \<and> total_above_high r),
          (2, \<lambda>r. subject_above_high r \<and> total_between r),
          (3, \<lambda>r. subject_between r \<and> total_above_high r),
          (4, \<lambda>r. subject_between r \<and> total_between r),
          (5, \<lambda>r. subject_below_low r \<and> total_above_high r),
          (6, \<lambda>r. subject_below_low r \<and> total_between r),
          (7, \<lambda>r. subject_below_low r \<and> total_below_low r),
          (8, \<lambda>r. subject_between r \<and> total_below_low r),
          (9, \<lambda>r. subject_above_high r \<and> total_below_low r)])"

text \<open>\<open>analyze_dual_metric_grid\<close> swaps its arguments when the first has the larger
  subject threshold; the total thresholds follow the metrics. With no valid row the
  first percentage divides by zero.\<close>

definition analyze_dual_metric_grid ::
  "analyzer \<Rightarrow> metric \<Rightarrow> metric \<Rightarrow> py_error + quadrant_stats option" where
  "analyze_dual_metric_grid a metric1 metric2 =
     (let (m1, m2) = (if subject_threshold metric1 > subject_threshold metric2
                      then (metric2, metric1) else (metric1, metric2));
          clean_df = dropna [subject_column a, total_column a] (df a);
          total_students = length clean_df
      in if total_students = 0 then Inl ZeroDivisionError
         else Inr (Some (map (\<lambda>(region_id, mask).
                      (GridR region_id, raw_stats a total_students (filter mask clean_df)))
                    (dual_masks (subject_column a) (total_column a)
                       (subject_threshold m1) (total_threshold m1)
                       (subject_threshold m2) (total_threshold m2)))))"

definition triple_masks ::
  "string \<Rightarrow> string \<Rightarrow> real \<Rightarrow> real \<Rightarrow> real \<Rightarrow> real \<Rightarrow> real \<Rightarrow> real
     \<Rightarrow> (nat \<times> (num_row \<Rightarrow> bool)) list" where
  "triple_masks sc tc subject_high total_high subject_mid total_mid subject_low total_low =
     (let subject_above_high = (\<lambda>r. nan_gt (r sc) subject_high);
          subject_between_mid_high = (\<lambda>r. nan_gt (r sc) subject_mid \<and> nan_le (r sc) subject_high);
          subject_between_low_mid = (\<lambda>r. nan_gt (r sc) subject_low \<and> nan_le (r sc) subject_mid);
          subject_below_low = (\<lambda>r. nan_le (r sc) subject_low);
          total_above_high = (\<lambda>r. nan_gt (r tc) total_high);
          total_between_mid_high = (\<lambda>r. nan_gt (r tc) total_mid \<and> nan_le (r tc) total_high);
          total_between_low_mid = (\<lambda>r. nan_gt (r tc) total_low \<and> nan_le (r tc) total_mid);
          total_below_low = (\<lambda>r. nan_le (r tc) total_low)
      in [(1, \<lambda>r. subject_above_high r \<and> total_above_high r),
          (2, \<lambda>r. subject_above_high r \<and> total_between_mid_high r),
          (3, \<lambda>r. subject_above_high r \<and> total_between_low_mid r),
          (4, \<lambda>r. subject_above_high r \<and> total_below_low r),
          (5, \<lambda>r. subject_between_mid_high r \<and> total_above_high r),
          (6, \<lambda>r. subject_between_mid_high r \<and> total_between_mid_high r),
          (7, \<lambda>r. subject_between_mid_high r \<and> total_between_low_mid r),
          (8, \<lambda>r. subject_between_mid_high r \<and> total_below_low r),
          (9, \<lambda>r. subject_between_low_mid r \<and> total_above_high r),
          (10, \<lambda>r. subject_between_low_mid r \<and> total_between_mid_high r),
          (11, \<lambda>r. subject_between_low_mid r \<and> total_between_low_mid r),
          (12, \<lambda>r. subject_between_low_mid r \<and> total_below_low r),
          (13, \<lambda>r. subject_below_low r \<and> total_above_high r),
          (14, \<lambda>r. subject_below_low r \<and> total_between_mid_high r),
          (15, \<lambda>r. subject_below_low r \<and> total_between_low_mid r),
          (16, \<lambda>r. subject_below_low r \<and> total_below_low r)])"

definition analyze_triple_metric_grid ::
  "analyzer \<Rightarrow> metric \<Rightarrow> metric \<Rightarrow> metric \<Rightarrow> quadrant_stats" where
  "analyze_triple_metric_grid a high_metric mid_metric low_metric =
     (let clean_df = dropna [subject_column a, total_column a] (df a)
      in map (\<lambda>(region_id, mask).
                (RegionId region_id, guarded_stats a clean_df (filter mask clean_df)))
             (triple_masks (subject_column a) (total_column a)
                (subject_threshold high_metric) (total_threshold high_metric)
                (subject_threshold mid_metric) (total_threshold mid_metric)
                (subject_threshold low_metric) (total_threshold low_metric)))"

text \<open>\<open>sorted(..., key = max of the two thresholds, reverse=True)\<close> is a stable sort in
  descending key order: metrics with equal keys keep their order.\<close>

definition sorted_metrics :: "metric list \<Rightarrow> metric list" where
  "sorted_metrics ms = sort_key (\<lambda>x. - max (subject_threshold x) (total_threshold x)) ms"

definition analyze_multi_metric_quadrants :: "analyzer \<Rightarrow> py_error + quadrant_stats option" where
  "analyze_multi_metric_quadrants a =
     (if custom_metrics a = [] then Inr None
      else (let s = sorted_metrics (custom_metrics a)
            in if length (custom_metrics a) = 3
               then Inr (Some (analyze_triple_metric_grid a (s ! 0) (s ! 1) (s ! 2)))
               else (case s of
                       primary_metric # secondary_metric # rest \<Rightarrow>
                         analyze_dual_metric_grid a primary_metric secondary_metric
                     | _ \<Rightarrow> Inl IndexError)))"

definition analyze_custom_quadrants :: "analyzer \<Rightarrow> py_error + quadrant_stats option" where
  "analyze_custom_quadrants a =
     (if custom_metrics a = [] then Inr (Some (analyze_basic_quadrants a))
      else if length (custom_metrics a) = 1
      then Inr (analyze_single_metric_grid a (custom_metrics a ! 0))
      else if length (custom_metrics a) = 2
      then analyze_dual_metric_grid a (custom_metrics a ! 0) (custom_metrics a ! 1)
      else analyze_multi_metric_quadrants a)"


section \<open>Tables with text and number cells\<close>

text \<open>
  The goal-line and the cascade analyses read frames whose cells are numbers, strings
  or NaN. Infinite floats are not modelled (the cascade analysis drops them before any
  statistic is taken). Column names and literals of the source that are not ASCII are
  the byte lists of their UTF-8 encoding (named \<open>zh_\<close> followed by the pinyin);
  a substring test on the bytes agrees with Python's test on the code points.
\<close>

datatype cell = Num real | Str string | NaN

type_synonym row = "string \<Rightarrow> cell"

record frame =
  columns :: "string list"
  rows :: "row list"

definition zh_quxian :: string where \<comment> \<open>U+533A U+53BF\<close>
  "zh_quxian = [CHR 0xE5, CHR 0x8C, CHR 0xBA, CHR 0xE5, CHR 0x8E, CHR 0xBF]"

definition zh_xuexiao :: string where \<comment> \<open>U+5B66 U+6821\<close>
  "zh_xuexiao = [CHR 0xE5, CHR 0xAD, CHR 0xA6, CHR 0xE6, CHR 0xA0, CHR 0xA1]"

definition zh_xingzhengban :: string where \<comment> \<open>U+884C U+653F U+73ED\<close>
  "zh_xingzhengban = [CHR 0xE8, CHR 0xA1, CHR 0x8C, CHR 0xE6, CHR 0x94, CHR 0xBF, CHR 0xE7, CHR 0x8F, CHR 0xAD]"

definition zh_banji :: string where \<comment> \<open>U+73ED U+7EA7\<close>
  "zh_banji = [CHR 0xE7, CHR 0x8F, CHR 0xAD, CHR 0xE7, CHR 0xBA, CHR 0xA7]"

definition zh_wu :: string where \<comment> \<open>U+7269\<close>
  "zh_wu = [CHR 0xE7, CHR 0x89, CHR 0xA9]"

definition zh_li :: string where \<comment> \<open>U+5386\<close>
  "zh_li = [CHR 0xE5, CHR 0x8E, CHR 0x86]"

definition zh_hua :: string where \<comment> \<open>U+5316\<close>
  "zh_hua = [CHR 0xE5, CHR 0x8C, CHR 0x96]"

definition zh_sheng :: string where \<comment> \<open>U+751F\<close>
  "zh_sheng = [CHR 0xE7, CHR 0x94, CHR 0x9F]"

definition zh_zheng :: string where \<comment> \<open>U+653F\<close>
  "zh_zheng = [CHR 0xE6, CHR 0x94, CHR 0xBF]"

definition zh_di :: string where \<comment> \<open>U+5730\<close>
  "zh_di = [CHR 0xE5, CHR 0x9C, CHR 0xB0]"

definition zh_wuli :: string where \<comment> \<open>U+7269 U+7406\<close>
  "zh_wuli = [CHR 0xE7, CHR 0x89, CHR 0xA9, CHR 0xE7, CHR 0x90, CHR 0x86]"

definition zh_lishi :: string where \<comment> \<open>U+5386 U+53F2\<close>
  "zh_lishi = [CHR 0xE5, CHR 0x8E, CHR 0x86, CHR 0xE5, CHR 0x8F, CHR 0xB2]"

definition zh_huaxue :: string where \<comment> \<open>U+5316 U+5B66\<close>
  "zh_huaxue = [CHR 0xE5, CHR 0x8C, CHR 0x96, CHR 0xE5, CHR 0xAD, CHR 0xA6]"

definition zh_shengwu :: string where \<comment> \<open>U+751F U+7269\<close>
  "zh_shengwu = [CHR 0xE7, CHR 0x94, CHR 0x9F, CHR 0xE7, CHR 0x89, CHR 0xA9]"

definition zh_zhengzhi :: string where \<comment> \<open>U+653F U+6CBB\<close>
  "zh_zhengzhi = [CHR 0xE6, CHR 0x94, CHR 0xBF, CHR 0xE6, CHR 0xB2, CHR 0xBB]"

definition zh_dili :: string where \<comment> \<open>U+5730 U+7406\<close>
  "zh_dili = [CHR 0xE5, CHR 0x9C, CHR 0xB0, CHR 0xE7, CHR 0x90, CHR 0x86]"

definition zh_fenshu :: string where \<comment> \<open>U+5206 U+6570\<close>
  "zh_fenshu = [CHR 0xE5, CHR 0x88, CHR 0x86, CHR 0xE6, CHR 0x95, CHR 0xB0]"

definition zh_yuanfen :: string where \<comment> \<open>U+539F U+5206\<close>
  "zh_yuanfen = [CHR 0xE5, CHR 0x8E, CHR 0x9F, CHR 0xE5, CHR 0x88, CHR 0x86]"

definition zh_dengji :: string where \<comment> \<open>U+7B49 U+7EA7\<close>
  "zh_dengji = [CHR 0xE7, CHR 0xAD, CHR 0x89, CHR 0xE7, CHR 0xBA, CHR 0xA7]"

definition zh_fufen :: string where \<comment> \<open>U+8D4B U+5206\<close>
  "zh_fufen = [CHR 0xE8, CHR 0xB5, CHR 0x8B, CHR 0xE5, CHR 0x88, CHR 0x86]"


definition zh_yuwen :: string where \<comment> \<open>U+8BED U+6587\<close>
  "zh_yuwen = [CHR 0xE8, CHR 0xAF, CHR 0xAD, CHR 0xE6, CHR 0x96, CHR 0x87]"

definition zh_shuxue :: string where \<comment> \<open>U+6570 U+5B66\<close>
  "zh_shuxue = [CHR 0xE6, CHR 0x95, CHR 0xB0, CHR 0xE5, CHR 0xAD, CHR 0xA6]"

definition zh_yingyu :: string where \<comment> \<open>U+82F1 U+8BED\<close>
  "zh_yingyu = [CHR 0xE8, CHR 0x8B, CHR 0xB1, CHR 0xE8, CHR 0xAF, CHR 0xAD]"

text \<open>Python's \<open>kw in col\<close> on strings.\<close>

fun is_substring :: "string \<Rightarrow> string \<Rightarrow> bool" where
  "is_substring kw [] = (kw = [])"
| "is_substring kw (c # cs) = (take (length kw) (c # cs) = kw \<or> is_substring kw cs)"

definition to_float :: "cell \<Rightarrow> pyfloat" where
  "to_float c = (case c of Num x \<Rightarrow> Some x | _ \<Rightarrow> None)"

definition is_number :: "cell \<Rightarrow> bool" where
  \<comment> \<open>\<open>pd.notnull(x) and isinstance(x, (int, float))\<close>\<close>
  "is_number c = (case c of Num x \<Rightarrow> True | _ \<Rightarrow> False)"

definition cell_ge :: "cell \<Rightarrow> real \<Rightarrow> bool" where
  \<comment> \<open>\<open>>=\<close> on a column that holds numbers only\<close>
  "cell_ge c t = (case c of Num x \<Rightarrow> x \<ge> t | _ \<Rightarrow> False)"

text \<open>\<open>groupby(col)\<close>: one group for each distinct key that is not NaN. pandas
  orders the groups by key; here they stand in order of first occurrence, and no
  statement below depends on the order.\<close>

definition groupby_keys :: "string \<Rightarrow> row list \<Rightarrow> cell list" where
  "groupby_keys col rs = remdups (filter (\<lambda>k. k \<noteq> NaN) (map (\<lambda>r. r col) rs))"

definition get_group :: "string \<Rightarrow> row list \<Rightarrow> cell \<Rightarrow> row list" where
  "get_group col rs k = filter (\<lambda>r. r col = k) rs"

section \<open>Goal-line evaluation (\<open>GoalCompletionAnalyzer\<close>)\<close>

text \<open>
  An entry of \<open>score_line_config\<close> has a name and a \<open>min_score\<close>. The fields that
  the overall statistics (\<open>basic_stats\<close>) and the statistics of a group share are
  one record, extended by the fields each has of its own. The name lists, the score
  histogram and the row dumps of the result are left out.
\<close>

record score_line =
  line_name :: string
  line_min_score :: real

record goal_analyzer =
  goal_df :: frame
  score_line_config :: "string \<rightharpoonup> score_line"

record reach_stats =
  reach_rate :: real
  avg_score :: pyfloat
  max_score :: pyfloat
  min_score :: pyfloat
  score_gap_to_line :: pyfloat
  score_gap_pct :: pyfloat

record basic_stats = reach_stats +
  line_score :: real
  total_students :: nat
  reached_students :: nat
  std_score :: pyfloat

record group_line_stats = reach_stats +
  total_count :: nat
  reached_count :: nat

record line_result =
  basic :: basic_stats
  hierarchy_stats :: "(string \<times> (cell \<times> group_line_stats) list) list"

fun find_class_column :: "string list \<Rightarrow> string option \<Rightarrow> string option" where
  "find_class_column [] found = found"
| "find_class_column (col # cols) found =
     (if is_substring zh_xingzhengban col then Some col
      else if is_substring zh_banji col \<and> found = None then find_class_column cols (Some col)
      else find_class_column cols found)"

definition find_hierarchy_columns :: "frame \<Rightarrow> (string \<times> string) list" where
  "find_hierarchy_columns f =
     (case find (is_substring zh_quxian) (columns f) of
        Some col \<Rightarrow> [(''county'', col)] | None \<Rightarrow> []) @
     (case find (is_substring zh_xuexiao) (columns f) of
        Some col \<Rightarrow> [(''school'', col)] | None \<Rightarrow> []) @
     (case find_class_column (columns f) None of
        Some col \<Rightarrow> [(''class'', col)] | None \<Rightarrow> [])"

text \<open>The cleaning step: \<open>dropna\<close> on the target column, then only the rows whose
  target cell is a number.\<close>

definition clean_target :: "string \<Rightarrow> row list \<Rightarrow> row list" where
  "clean_target target_column rs =
     filter (\<lambda>r. is_number (r target_column)) (filter (\<lambda>r. r target_column \<noteq> NaN) rs)"

definition target_series :: "string \<Rightarrow> row list \<Rightarrow> series" where
  "target_series target_column rs = map (\<lambda>r. to_float (r target_column)) rs"

definition completed_students :: "string \<Rightarrow> real \<Rightarrow> row list \<Rightarrow> row list" where
  "completed_students target_column target_score clean_df =
     filter (\<lambda>r. cell_ge (r target_column) target_score) clean_df"

definition calculate_group_line_stats :: "row list \<Rightarrow> string \<Rightarrow> real \<Rightarrow> group_line_stats" where
  "calculate_group_line_stats grp target_column target_score =
     (let total_cnt = length grp;
          reached_cnt = length (filter (\<lambda>r. cell_ge (r target_column) target_score) grp);
          rate = (if total_cnt > 0 then real reached_cnt / real total_cnt * 100 else 0);
          reached_group = filter (\<lambda>r. cell_ge (r target_column) target_score) grp
      in if length reached_group > 0
         then (let reached_avg_score = pd_mean (target_series target_column reached_group)
               in \<lparr> reach_rate = rate,
                    avg_score = reached_avg_score,
                    max_score = pd_max (target_series target_column reached_group),
                    min_score = pd_min (target_series target_column reached_group),
                    score_gap_to_line = series_sub reached_avg_score target_score,
                    score_gap_pct =
                      (if target_score \<noteq> 0
                       then map_option (\<lambda>m. (m - target_score) / target_score * 100) reached_avg_score
                       else Some 0),
                    total_count = total_cnt, reached_count = reached_cnt \<rparr>)
         else \<lparr> reach_rate = rate,
                avg_score = Some 0, max_score = Some 0, min_score = Some 0,
                score_gap_to_line = Some (- target_score),
                score_gap_pct = Some (- 100),
                total_count = total_cnt, reached_count = reached_cnt \<rparr>)"

definition line_basic_stats :: "row list \<Rightarrow> string \<Rightarrow> real \<Rightarrow> basic_stats" where
  "line_basic_stats clean_df target_column target_score =
     (let total = length clean_df;
          completed = completed_students target_column target_score clean_df;
          completion_rate = real (length completed) / real total * 100;
          s = target_series target_column completed
      in \<lparr> reach_rate = completion_rate,
           avg_score = (if length completed > 0 then pd_mean s else Some 0),
           max_score = (if length completed > 0 then pd_max s else Some 0),
           min_score = (if length completed > 0 then pd_min s else Some 0),
           score_gap_to_line =
             (if length completed > 0 then series_sub (pd_mean s) target_score else Some 0),
           score_gap_pct =
             (if length completed > 0 \<and> target_score \<noteq> 0
              then map_option (\<lambda>m. (m - target_score) / target_score * 100) (pd_mean s)
              else Some 0),
           line_score = target_score,
           total_students = total,
           reached_students = length completed,
           std_score = (if length completed > 0 then pd_std s else Some 0) \<rparr>)"

text \<open>\<open>analyze_score_line_completion\<close> for a given target column; \<open>analysis_levels\<close>
  is \<open>None\<close> when the caller leaves the default.\<close>

definition analyze_score_line_completion ::
  "goal_analyzer \<Rightarrow> string \<Rightarrow> string \<Rightarrow> string list option \<Rightarrow> line_result option" where
  "analyze_score_line_completion g line_type target_column analysis_levels =
     (case score_line_config g line_type of
        None \<Rightarrow> None
      | Some line_info \<Rightarrow>
          (let target_score = line_min_score line_info;
               clean_df = clean_target target_column (rows (goal_df g))
           in if length clean_df = 0 then None
              else (let levels = (case analysis_levels of
                                    None \<Rightarrow> [''county'', ''school''] | Some ls \<Rightarrow> ls)
                    in Some \<lparr> basic = line_basic_stats clean_df target_column target_score,
                              hierarchy_stats =
                                map (\<lambda>(level, col).
                                       (level,
                                        map (\<lambda>k. (k, calculate_group_line_stats
                                                        (get_group col clean_df k)
                                                        target_column target_score))
                                            (groupby_keys col clean_df)))
                                    (filter (\<lambda>(level, col).
                                               level \<in> set levels \<and> col \<in> set (columns (goal_df g)))
                                            (find_hierarchy_columns (goal_df g))) \<rparr>)))"


section \<open>Hierarchical aggregation (\<open>CascadeStatisticsAnalyzer\<close>)\<close>














section \<open>Subject combination (\<open>determine_subject_combination\<close>)\<close>


definition subject_mapping :: "(string \<times> string list) list" where
  "subject_mapping =
     [(zh_wu, [zh_wuli, zh_wuli @ zh_fenshu]),
      (zh_li, [zh_lishi, zh_lishi @ zh_fenshu]),
      (zh_hua, [zh_huaxue, zh_huaxue @ zh_fenshu, zh_huaxue @ zh_yuanfen,
                zh_huaxue @ zh_dengji, zh_huaxue @ zh_fufen]),
      (zh_sheng, [zh_shengwu, zh_shengwu @ zh_fenshu, zh_shengwu @ zh_yuanfen,
                  zh_shengwu @ zh_dengji, zh_shengwu @ zh_fufen]),
      (zh_zheng, [zh_zhengzhi, zh_zhengzhi @ zh_fenshu, zh_zhengzhi @ zh_yuanfen,
                  zh_zhengzhi @ zh_dengji, zh_zhengzhi @ zh_fufen]),
      (zh_di, [zh_dili, zh_dili @ zh_fenshu, zh_dili @ zh_yuanfen,
               zh_dili @ zh_dengji, zh_dili @ zh_fufen])]"

definition mapping_columns :: "string \<Rightarrow> string list" where
  \<comment> \<open>\<open>subject_mapping[code]\<close>, read only at codes that are keys\<close>
  "mapping_columns code = (case map_of subject_mapping code of Some cs \<Rightarrow> cs | None \<Rightarrow> [])"





definition standard_order :: "string \<Rightarrow> nat" where
  "standard_order x =
     (case map_of [(zh_wu, 0), (zh_li, 1), (zh_hua, 2), (zh_sheng, 3), (zh_zheng, 4), (zh_di, 5)] x of
        Some n \<Rightarrow> n | None \<Rightarrow> 99)"


section \<open>Total-score synthesis (\<open>calculate_total_score\<close>)\<close>

text \<open>
  The frame has numeric columns only, so every subject column is a numeric subject
  column. For each subject the first column whose name contains the subject keyword
  is read. The result is the new total column, or \<open>None\<close> when the frame is returned
  without one.
\<close>

record num_frame =
  num_columns :: "string list"
  num_rows :: "num_row list"

definition subject_keywords :: "string list" where
  "subject_keywords =
     [zh_yuwen, zh_shuxue, zh_yingyu, zh_wuli, zh_huaxue, zh_shengwu, zh_zhengzhi, zh_lishi, zh_dili]"

definition subject_cell :: "string list \<Rightarrow> num_row \<Rightarrow> string \<Rightarrow> (string \<times> real) option" where
  \<comment> \<open>the column read for a subject with its score, when there is a column and the score is not NaN\<close>
  "subject_cell numeric_subject_columns r subject =
     (case find (is_substring subject) numeric_subject_columns of
        None \<Rightarrow> None
      | Some col_name \<Rightarrow> (case r col_name of None \<Rightarrow> None | Some v \<Rightarrow> Some (col_name, v)))"

definition compulsory_step ::
  "string list \<Rightarrow> num_row \<Rightarrow> string \<Rightarrow> real \<times> nat \<Rightarrow> real \<times> nat" where
  "compulsory_step cols r subject st =
     (case subject_cell cols r subject of
        None \<Rightarrow> st
      | Some (col_name, v) \<Rightarrow> (fst st + v, snd st + 1))"

definition first_choice_step ::
  "string list \<Rightarrow> num_row \<Rightarrow> string \<Rightarrow> (string \<times> real) option \<Rightarrow> (string \<times> real) option" where
  "first_choice_step cols r subject first_choice =
     (case subject_cell cols r subject of
        None \<Rightarrow> first_choice
      | Some (col_name, v) \<Rightarrow>
          (case first_choice of
             None \<Rightarrow> Some (col_name, v)
           | Some fc \<Rightarrow> if v > snd fc then Some (col_name, v) else Some fc))"

definition second_choice_step ::
  "string list \<Rightarrow> num_row \<Rightarrow> string \<Rightarrow> (string \<times> real) list \<Rightarrow> (string \<times> real) list" where
  "second_choice_step cols r subject second_choices =
     (case subject_cell cols r subject of
        None \<Rightarrow> second_choices
      | Some cv \<Rightarrow> second_choices @ [cv])"

definition new_gaokao_total :: "string list \<Rightarrow> num_row \<Rightarrow> pyfloat" where
  "new_gaokao_total cols r =
     (let (score1, valid1) = fold (compulsory_step cols r) [zh_yuwen, zh_shuxue, zh_yingyu] (0, 0);
          first_choice = fold (first_choice_step cols r) [zh_wuli, zh_lishi] None;
          (score2, valid2) = (case first_choice of
                                None \<Rightarrow> (score1, valid1)
                              | Some fc \<Rightarrow> (score1 + snd fc, valid1 + 1));
          second_choices = fold (second_choice_step cols r)
                             [zh_huaxue, zh_shengwu, zh_zhengzhi, zh_dili] [];
          best_two = take 2 (sort_key (\<lambda>x. - snd x) second_choices);
          (score3, valid3) = fold (\<lambda>cv st. (fst st + snd cv, snd st + 1)) best_two (score2, valid2)
      in if valid3 \<ge> 6 then Some score3 else None)"

definition traditional_total :: "string list \<Rightarrow> num_row \<Rightarrow> pyfloat" where
  \<comment> \<open>\<open>sum(axis=1, skipna=False)\<close>: NaN as soon as one cell is NaN\<close>
  "traditional_total cols r =
     (if list_all (\<lambda>c. r c \<noteq> None) cols then Some (sum_list (notna_values (map r cols))) else None)"

definition find_subject_columns :: "num_frame \<Rightarrow> string list" where
  "find_subject_columns f =
     filter (\<lambda>col. list_ex (\<lambda>keyword. is_substring keyword col) subject_keywords) (num_columns f)"

definition calculate_total_score :: "num_frame \<Rightarrow> string \<Rightarrow> py_error + pyfloat list option" where
  "calculate_total_score f exam_mode =
     (if num_rows f = [] \<or> num_columns f = [] then Inl ValueError
      else (let subject_columns = find_subject_columns f
            in if subject_columns = [] then Inr None
               else if exam_mode = ''new_gaokao''
               then Inr (Some (map (new_gaokao_total subject_columns) (num_rows f)))
               else Inr (Some (map (traditional_total subject_columns) (num_rows f)))))"


section \<open>Concrete inputs\<close>

text \<open>The preset metrics of \<open>get_preset_metrics\<close>, the default lines of
  \<open>get_default_score_lines\<close>, and small frames on which the analyses are evaluated
  below, with projections of their results.\<close>

definition zh_baodixian :: string where \<comment> \<open>U+4FDD U+5E95 U+7EBF\<close>
  "zh_baodixian = [CHR 0xE4, CHR 0xBF, CHR 0x9D, CHR 0xE5, CHR 0xBA, CHR 0x95, CHR 0xE7, CHR 0xBA, CHR 0xBF]"

definition zh_benkexian :: string where \<comment> \<open>U+672C U+79D1 U+7EBF\<close>
  "zh_benkexian = [CHR 0xE6, CHR 0x9C, CHR 0xAC, CHR 0xE7, CHR 0xA7, CHR 0x91, CHR 0xE7, CHR 0xBA, CHR 0xBF]"

definition zh_zhongdianxian :: string where \<comment> \<open>U+91CD U+70B9 U+7EBF\<close>
  "zh_zhongdianxian = [CHR 0xE9, CHR 0x87, CHR 0x8D, CHR 0xE7, CHR 0x82, CHR 0xB9, CHR 0xE7, CHR 0xBA, CHR 0xBF]"

definition zh_tekongxian :: string where \<comment> \<open>U+7279 U+63A7 U+7EBF\<close>
  "zh_tekongxian = [CHR 0xE7, CHR 0x89, CHR 0xB9, CHR 0xE6, CHR 0x8E, CHR 0xA7, CHR 0xE7, CHR 0xBA, CHR 0xBF]"

definition zh_gaofenxian :: string where \<comment> \<open>U+9AD8 U+5206 U+7EBF\<close>
  "zh_gaofenxian = [CHR 0xE9, CHR 0xAB, CHR 0x98, CHR 0xE5, CHR 0x88, CHR 0x86, CHR 0xE7, CHR 0xBA, CHR 0xBF]"

definition add_custom_metric :: "string \<Rightarrow> real \<Rightarrow> real \<Rightarrow> metric" where
  \<comment> \<open>the dictionary that \<open>add_custom_metric\<close> appends\<close>
  "add_custom_metric n s t = \<lparr> name = n, subject_threshold = s, total_threshold = t \<rparr>"

definition get_preset_metrics :: "metric list" where
  "get_preset_metrics =
     [add_custom_metric zh_baodixian 60 300,
      add_custom_metric zh_benkexian 75 375,
      add_custom_metric zh_zhongdianxian 80 425,
      add_custom_metric zh_tekongxian 85 475]"

definition score_pair :: "real \<Rightarrow> real \<Rightarrow> num_row" where
  "score_pair s t =
     (\<lambda>c. if c = ''subject'' then Some s else if c = ''total'' then Some t else None)"

definition quadrant_analyzer :: "num_row list \<Rightarrow> metric list \<Rightarrow> analyzer" where
  "quadrant_analyzer rs ms =
     \<lparr> df = rs, subject_column = ''subject'', total_column = ''total'',
       custom_metrics = ms, basic_subject_threshold = 0, basic_total_threshold = 0 \<rparr>"

definition region_counts :: "py_error + quadrant_stats option \<Rightarrow> (region_key \<times> nat) list option" where
  "region_counts res =
     (case res of Inr (Some qs) \<Rightarrow> Some (map (\<lambda>(k, s). (k, count s)) qs) | _ \<Rightarrow> None)"

definition get_default_score_lines :: "string \<rightharpoonup> score_line" where
  "get_default_score_lines =
     [''undergraduate'' \<mapsto> \<lparr> line_name = zh_benkexian, line_min_score = 450 \<rparr>,
      ''special_control'' \<mapsto> \<lparr> line_name = zh_tekongxian, line_min_score = 520 \<rparr>,
      ''high_score'' \<mapsto> \<lparr> line_name = zh_gaofenxian, line_min_score = 600 \<rparr>]"

definition school_row :: "string \<Rightarrow> real \<Rightarrow> row" where
  "school_row school v =
     (\<lambda>c. if c = zh_xuexiao then Str school else if c = ''total'' then Num v else NaN)"

definition school_analyzer :: "row list \<Rightarrow> goal_analyzer" where
  "school_analyzer rs =
     \<lparr> goal_df = \<lparr> columns = [zh_xuexiao, ''total''], rows = rs \<rparr>,
       score_line_config = get_default_score_lines \<rparr>"

definition overall_summary :: "line_result option \<Rightarrow> (pyfloat \<times> pyfloat \<times> pyfloat \<times> pyfloat) option" where
  "overall_summary res =
     map_option (\<lambda>x. (avg_score (basic x), min_score (basic x), max_score (basic x),
                        score_gap_to_line (basic x))) res"

definition group_summary ::
  "line_result option \<Rightarrow> (string \<times> (cell \<times> pyfloat \<times> pyfloat \<times> pyfloat \<times> pyfloat) list) list option" where
  "group_summary res =
     map_option (\<lambda>x. map (\<lambda>(level, groups).
                            (level, map (\<lambda>(k, gs). (k, avg_score gs, min_score gs, max_score gs,
                                                        score_gap_to_line gs)) groups))
                          (hierarchy_stats x)) res"







definition subject_columns_example :: "string list" where
  "subject_columns_example =
     [zh_yuwen, zh_shuxue, zh_yingyu, zh_wuli, zh_lishi, zh_huaxue, zh_shengwu, zh_zhengzhi, zh_dili]"

definition scores_row :: "pyfloat list \<Rightarrow> num_row" where
  \<comment> \<open>a row with the given cells in the columns of \<open>subject_columns_example\<close>\<close>
  "scores_row cells = (\<lambda>c. case map_of (zip subject_columns_example cells) c of
                               Some v \<Rightarrow> v | None \<Rightarrow> None)"

section \<open>Notions of the statements\<close>

subsection \<open>The region partition\<close>

text \<open>
  A result partitions the valid rows when its region keys are distinct, every valid
  row is in the member list of exactly one region, the member lists of different regions share no row, every
  member is a valid row, and the counts add up to the number of valid rows.
\<close>

definition partitions :: "num_row list \<Rightarrow> quadrant_stats \<Rightarrow> bool" where
  "partitions clean_df qs \<longleftrightarrow>
     distinct (map fst qs) \<and>
     (\<forall>r \<in> set clean_df. length (filter (\<lambda>(k, s). r \<in> set (students s)) qs) = 1) \<and>
     (\<forall>(k, s) \<in> set qs. \<forall>(k', s') \<in> set qs.
         k \<noteq> k' \<longrightarrow> set (students s) \<inter> set (students s') = {}) \<and>
     (\<forall>(k, s) \<in> set qs. set (students s) \<subseteq> set clean_df) \<and>
     sum_list (map (\<lambda>(k, s). count s) qs) = length clean_df"

subsection \<open>The subject combination in the words of the spec\<close>






subsection \<open>The composite total in the words of the spec\<close>

text \<open>
  The score of a subject is the cell of the first subject column whose name contains
  the subject keyword, NaN without such a column. The composite is the sum of the
  three compulsory scores, the higher first-choice score and the two highest elective
  scores; it is NaN unless all six are there.
\<close>

definition subject_score :: "string list \<Rightarrow> num_row \<Rightarrow> string \<Rightarrow> pyfloat" where
  \<comment> \<open>the score of a subject: the cell of the first column named after it, NaN without one\<close>
  "subject_score cols r subject = map_option snd (subject_cell cols r subject)"

definition valid_scores :: "string list \<Rightarrow> num_row \<Rightarrow> string list \<Rightarrow> real list" where
  "valid_scores cols r subjects = notna_values (map (subject_score cols r) subjects)"

definition compulsory_subjects :: "string list" where
  "compulsory_subjects = [zh_yuwen, zh_shuxue, zh_yingyu]"

definition first_choice_subjects :: "string list" where
  "first_choice_subjects = [zh_wuli, zh_lishi]"

definition elective_subjects :: "string list" where
  "elective_subjects = [zh_huaxue, zh_shengwu, zh_zhengzhi, zh_dili]"

definition composite_total :: "string list \<Rightarrow> num_row \<Rightarrow> pyfloat" where
  "composite_total cols r =
     (let compulsory = valid_scores cols r compulsory_subjects;
          first = valid_scores cols r first_choice_subjects;
          electives = valid_scores cols r elective_subjects
      in if length compulsory = 3 \<and> first \<noteq> [] \<and> length electives \<ge> 2
         then Some (sum_list compulsory + Max (set first) + sum_list (take 2 (rev (sort electives))))
         else None)"

section \<open>Verified properties: threshold classification\<close>

lemma sum_filter_lengths:
  assumes "\<And>x. x \<in> set xs \<Longrightarrow> length (filter (\<lambda>(i, m). m x) ms) = 1"
  shows "sum_list (map (\<lambda>(i, m). length (filter m xs)) ms) = length xs"
  using assms
proof (induction xs)
  case Nil
  then show ?case by (induction ms) auto
next
  case (Cons x xs)
  have split: "sum_list (map (\<lambda>(i, m). length (filter m (x # xs))) ms)
      = length (filter (\<lambda>(i, m). m x) ms) + sum_list (map (\<lambda>(i, m). length (filter m xs)) ms)"
    by (induction ms) auto
  have "length (filter (\<lambda>(i, m). m x) ms) = 1" using Cons.prems by simp
  moreover have "sum_list (map (\<lambda>(i, m). length (filter m xs)) ms) = length xs"
    using Cons.IH Cons.prems by simp
  ultimately show ?case using split by simp
qed

lemma sum_counts_masks:
  fixes key :: "nat \<Rightarrow> region_key" and stats :: "num_row list \<Rightarrow> region_stats"
  assumes ct: "\<And>l. count (stats l) = length l"
  shows "sum_list (map (\<lambda>(k, s). count s) (map (\<lambda>(i, mask). (key i, stats (filter mask xs))) masks))
     = sum_list (map (\<lambda>(i, m). length (filter m xs)) masks)"
  by (induction masks) (auto simp: ct)

lemma filter_members_masks:
  fixes key :: "nat \<Rightarrow> region_key" and stats :: "num_row list \<Rightarrow> region_stats"
  assumes st: "\<And>l. students (stats l) = l" and "r \<in> set xs"
  shows "filter (\<lambda>(k, s). r \<in> set (students s)) (map (\<lambda>(i, mask). (key i, stats (filter mask xs))) masks)
      = map (\<lambda>(i, mask). (key i, stats (filter mask xs))) (filter (\<lambda>(i, m). m r) masks)"
  using assms(2) by (induction masks) (auto simp: st)

lemma partitions_of_masks:
  fixes key :: "nat \<Rightarrow> region_key" and stats :: "num_row list \<Rightarrow> region_stats"
  assumes exact: "\<And>r. r \<in> set clean_df \<Longrightarrow> length (filter (\<lambda>(i, m). m r) masks) = 1"
    and st: "\<And>l. students (stats l) = l" and ct: "\<And>l. count (stats l) = length l"
    and keys: "distinct (map (\<lambda>(i, mask). key i) masks)"
  shows "partitions clean_df (map (\<lambda>(i, mask). (key i, stats (filter mask clean_df))) masks)"
proof -
  let ?qs = "map (\<lambda>(i, mask). (key i, stats (filter mask clean_df))) masks"
  have "map fst ?qs = map (\<lambda>(i, mask). key i) masks" by (induction masks) auto
  then have dk: "distinct (map fst ?qs)" using keys by (simp only:)
  have memb: "filter (\<lambda>(k, s). r \<in> set (students s)) ?qs
      = map (\<lambda>(i, mask). (key i, stats (filter mask clean_df))) (filter (\<lambda>(i, m). m r) masks)"
    if "r \<in> set clean_df" for r
    using filter_members_masks[of stats r clean_df key masks] st that by simp
  have one: "length (filter (\<lambda>(k, s). r \<in> set (students s)) ?qs) = 1" if "r \<in> set clean_df" for r
    using memb[OF that] exact[OF that] by simp
  have sub: "\<forall>(k, s) \<in> set ?qs. set (students s) \<subseteq> set clean_df"
    by (auto simp: st)
  have disj': "set (students s) \<inter> set (students s') = {}"
    if a: "(k, s) \<in> set ?qs" "(k', s') \<in> set ?qs" "k \<noteq> k'" for k s k' s'
  proof (rule ccontr)
    assume "set (students s) \<inter> set (students s') \<noteq> {}"
    then obtain r where r: "r \<in> set (students s)" "r \<in> set (students s')" by blast
    from a(1) r(1) sub have rc: "r \<in> set clean_df" by auto
    from one[OF rc] obtain e where e: "filter (\<lambda>(k, s). r \<in> set (students s)) ?qs = [e]"
      by (cases "filter (\<lambda>(k, s). r \<in> set (students s)) ?qs") auto
    have "(k, s) \<in> set (filter (\<lambda>(k, s). r \<in> set (students s)) ?qs)"
      "(k', s') \<in> set (filter (\<lambda>(k, s). r \<in> set (students s)) ?qs)"
      using a r by auto
    then have "(k, s) = e" "(k', s') = e" unfolding e by auto
    then show False using a(3) by auto
  qed
  have disj: "\<forall>(k, s) \<in> set ?qs. \<forall>(k', s') \<in> set ?qs.
         k \<noteq> k' \<longrightarrow> set (students s) \<inter> set (students s') = {}"
    using disj' by blast
  have "sum_list (map (\<lambda>(k, s). count s) ?qs) = sum_list (map (\<lambda>(i, m). length (filter m clean_df)) masks)"
    using sum_counts_masks[of stats key clean_df masks] ct by simp
  also have "\<dots> = length clean_df"
    using sum_filter_lengths[of clean_df masks] exact by blast
  finally have total: "sum_list (map (\<lambda>(k, s). count s) ?qs) = length clean_df" .
  show ?thesis unfolding partitions_def using dk one sub disj total by blast
qed


lemma dropna_two:
  "r \<in> set (dropna [sc, tc] rs) \<Longrightarrow> (\<exists>x. r sc = Some x) \<and> (\<exists>y. r tc = Some y)"
  by (auto simp: dropna_def)

lemma quadrant_exact:
  assumes "r sc = Some x" "r tc = Some y"
  shows "length (filter (\<lambda>(i, m). m r) (quadrant_masks sc tc s t)) = 1"
  using assms by (auto simp: quadrant_masks_def series_sub_def nan_gt_def nan_le_def Let_def)

lemma single_partitions:
  assumes "dropna [subject_column a, total_column a] (df a) \<noteq> []"
  shows "\<exists>qs. analyze_single_metric_grid a m = Some qs
            \<and> partitions (dropna [subject_column a, total_column a] (df a)) qs"
proof -
  let ?clean = "dropna [subject_column a, total_column a] (df a)"
  have "partitions ?clean (map (\<lambda>(i, mask). (MetricQ (name m) i, guarded_stats a ?clean (filter mask ?clean)))
          (quadrant_masks (subject_column a) (total_column a) (subject_threshold m) (total_threshold m)))"
  proof (rule partitions_of_masks)
    fix r assume "r \<in> set ?clean"
    then obtain x y where "r (subject_column a) = Some x" "r (total_column a) = Some y"
      using dropna_two by blast
    then show "length (filter (\<lambda>(i, m). m r) (quadrant_masks (subject_column a) (total_column a)
                   (subject_threshold m) (total_threshold m))) = 1"
      by (rule quadrant_exact)
  qed (simp_all add: guarded_stats_def quadrant_masks_def)
  then show ?thesis using assms by (simp add: analyze_single_metric_grid_def Let_def)
qed

lemma basic_partitions:
  "partitions (dropna [subject_column a, total_column a] (df a)) (analyze_basic_quadrants a)"
proof -
  let ?clean = "dropna [subject_column a, total_column a] (df a)"
  have "partitions ?clean (map (\<lambda>(i, mask). (RegionId i, guarded_stats a ?clean (filter mask ?clean)))
          (quadrant_masks (subject_column a) (total_column a)
              (basic_subject_threshold a) (basic_total_threshold a)))"
  proof (rule partitions_of_masks)
    fix r assume "r \<in> set ?clean"
    then obtain x y where "r (subject_column a) = Some x" "r (total_column a) = Some y"
      using dropna_two by blast
    then show "length (filter (\<lambda>(i, m). m r) (quadrant_masks (subject_column a) (total_column a)
                   (basic_subject_threshold a) (basic_total_threshold a))) = 1"
      by (rule quadrant_exact)
  qed (simp_all add: guarded_stats_def quadrant_masks_def)
  then show ?thesis by (simp add: analyze_basic_quadrants_def Let_def)
qed

lemma single_grid_unfold:
  "analyze_single_metric_grid a m =
     (let clean_df = dropna [subject_column a, total_column a] (df a);
          sd = (\<lambda>r. series_sub (r (subject_column a)) (subject_threshold m));
          td = (\<lambda>r. series_sub (r (total_column a)) (total_threshold m))
      in if clean_df = [] then None
         else Some
           [(MetricQ (name m) 1, guarded_stats a clean_df (filter (\<lambda>r. nan_gt (sd r) 0 \<and> nan_gt (td r) 0) clean_df)),
            (MetricQ (name m) 2, guarded_stats a clean_df (filter (\<lambda>r. nan_le (sd r) 0 \<and> nan_gt (td r) 0) clean_df)),
            (MetricQ (name m) 3, guarded_stats a clean_df (filter (\<lambda>r. nan_le (sd r) 0 \<and> nan_le (td r) 0) clean_df)),
            (MetricQ (name m) 4, guarded_stats a clean_df (filter (\<lambda>r. nan_gt (sd r) 0 \<and> nan_le (td r) 0) clean_df))])"
  by (simp add: analyze_single_metric_grid_def quadrant_masks_def Let_def)

lemma students_guarded [simp]: "students (guarded_stats a c l) = l"
  by (simp add: guarded_stats_def)

lemma count_guarded [simp]: "count (guarded_stats a c l) = length l"
  by (simp add: guarded_stats_def)

lemma quadrant_member:
  assumes "r \<in> set clean" "r sc = Some x" "r tc = Some y"
  shows "r \<in> set (filter (\<lambda>r. nan_gt (series_sub (r sc) s) 0 \<and> nan_gt (series_sub (r tc) t) 0) clean)
           \<longleftrightarrow> x > s \<and> y > t"
    and "r \<in> set (filter (\<lambda>r. nan_le (series_sub (r sc) s) 0 \<and> nan_gt (series_sub (r tc) t) 0) clean)
           \<longleftrightarrow> x \<le> s \<and> y > t"
    and "r \<in> set (filter (\<lambda>r. nan_le (series_sub (r sc) s) 0 \<and> nan_le (series_sub (r tc) t) 0) clean)
           \<longleftrightarrow> x \<le> s \<and> y \<le> t"
    and "r \<in> set (filter (\<lambda>r. nan_gt (series_sub (r sc) s) 0 \<and> nan_le (series_sub (r tc) t) 0) clean)
           \<longleftrightarrow> x > s \<and> y \<le> t"
  using assms by (simp_all add: series_sub_def nan_gt_def nan_le_def)

text \<open>
  Claim C2. In the single-metric classification a valid row reaches a threshold only
  with a value strictly above it, on each axis: the row is a member of quadrant 1
  (both reached) exactly when both values are above their thresholds, of quadrant 2
  (total reached) when the subject value is at most its threshold and the total above,
  of quadrant 3 (neither reached) when both values are at most their thresholds, and of
  quadrant 4 (subject reached) when the subject value is above and the total at most
  its threshold. So a value equal to its threshold does not reach it, and the
  row equal to both thresholds is in quadrant 3 and in no other.
\<close>

theorem boundary_row_neither_reached:
  assumes "r \<in> set (df a)"
    and "r (subject_column a) = Some x"
    and "r (total_column a) = Some y"
  shows "\<exists>s1 s2 s3 s4.
           analyze_single_metric_grid a m
             = Some [(MetricQ (name m) 1, s1), (MetricQ (name m) 2, s2),
                     (MetricQ (name m) 3, s3), (MetricQ (name m) 4, s4)]
           \<and> (r \<in> set (students s1) \<longleftrightarrow> x > subject_threshold m \<and> y > total_threshold m)
           \<and> (r \<in> set (students s2) \<longleftrightarrow> x \<le> subject_threshold m \<and> y > total_threshold m)
           \<and> (r \<in> set (students s3) \<longleftrightarrow> x \<le> subject_threshold m \<and> y \<le> total_threshold m)
           \<and> (r \<in> set (students s4) \<longleftrightarrow> x > subject_threshold m \<and> y \<le> total_threshold m)
           \<and> (x = subject_threshold m \<and> y = total_threshold m \<longrightarrow>
                  r \<in> set (students s3) \<and> r \<notin> set (students s1)
                  \<and> r \<notin> set (students s2) \<and> r \<notin> set (students s4))"
proof -
  define clean where "clean = dropna [subject_column a, total_column a] (df a)"
  define sd where "sd = (\<lambda>r. series_sub (r (subject_column a)) (subject_threshold m))"
  define td where "td = (\<lambda>r. series_sub (r (total_column a)) (total_threshold m))"
  define s1 where "s1 = guarded_stats a clean (filter (\<lambda>r. nan_gt (sd r) 0 \<and> nan_gt (td r) 0) clean)"
  define s2 where "s2 = guarded_stats a clean (filter (\<lambda>r. nan_le (sd r) 0 \<and> nan_gt (td r) 0) clean)"
  define s3 where "s3 = guarded_stats a clean (filter (\<lambda>r. nan_le (sd r) 0 \<and> nan_le (td r) 0) clean)"
  define s4 where "s4 = guarded_stats a clean (filter (\<lambda>r. nan_gt (sd r) 0 \<and> nan_le (td r) 0) clean)"
  have rc: "r \<in> set clean" using assms by (simp add: dropna_def clean_def)
  then have ne: "clean \<noteq> []" by auto
  have res: "analyze_single_metric_grid a m
             = Some [(MetricQ (name m) 1, s1), (MetricQ (name m) 2, s2),
                     (MetricQ (name m) 3, s3), (MetricQ (name m) 4, s4)]"
    using ne unfolding single_grid_unfold Let_def clean_def s1_def s2_def s3_def s4_def sd_def td_def
    by simp
  note qm = quadrant_member[OF rc assms(2,3), of "subject_threshold m" "total_threshold m"]
  have m1: "r \<in> set (students s1) \<longleftrightarrow> x > subject_threshold m \<and> y > total_threshold m"
    unfolding s1_def sd_def td_def students_guarded by (rule qm(1))
  have m2: "r \<in> set (students s2) \<longleftrightarrow> x \<le> subject_threshold m \<and> y > total_threshold m"
    unfolding s2_def sd_def td_def students_guarded by (rule qm(2))
  have m3: "r \<in> set (students s3) \<longleftrightarrow> x \<le> subject_threshold m \<and> y \<le> total_threshold m"
    unfolding s3_def sd_def td_def students_guarded by (rule qm(3))
  have m4: "r \<in> set (students s4) \<longleftrightarrow> x > subject_threshold m \<and> y \<le> total_threshold m"
    unfolding s4_def sd_def td_def students_guarded by (rule qm(4))
  have eq: "x = subject_threshold m \<and> y = total_threshold m \<longrightarrow>
                  r \<in> set (students s3) \<and> r \<notin> set (students s1)
                  \<and> r \<notin> set (students s2) \<and> r \<notin> set (students s4)"
    unfolding m1 m2 m3 m4 by simp
  from res m1 m2 m3 m4 eq show ?thesis by blast
qed

text \<open>Claim C2 at the line 70/280: the row (70, 300), on the subject threshold and
  above the total threshold, is in quadrant 2 only; the row (70, 280), on both
  thresholds, is in quadrant 3 only.\<close>

theorem boundary_row_neither_reached_witness:
  "(\<exists>s1 s2 s3 s4.
      analyze_single_metric_grid
          (quadrant_analyzer [score_pair 70 300, score_pair 70 280] []) (add_custom_metric ''line'' 70 280)
        = Some [(MetricQ ''line'' 1, s1), (MetricQ ''line'' 2, s2),
                (MetricQ ''line'' 3, s3), (MetricQ ''line'' 4, s4)]
      \<and> score_pair 70 300 \<notin> set (students s1) \<and> score_pair 70 300 \<in> set (students s2)
      \<and> score_pair 70 300 \<notin> set (students s3) \<and> score_pair 70 300 \<notin> set (students s4)
      \<and> score_pair 70 280 \<notin> set (students s1) \<and> score_pair 70 280 \<notin> set (students s2)
      \<and> score_pair 70 280 \<in> set (students s3) \<and> score_pair 70 280 \<notin> set (students s4))"
proof -
  let ?a = "quadrant_analyzer [score_pair 70 300, score_pair 70 280] []"
  let ?m = "add_custom_metric ''line'' 70 280"
  have a: "score_pair 70 300 \<in> set (df ?a)" "score_pair 70 280 \<in> set (df ?a)"
    by (simp_all add: quadrant_analyzer_def)
  have b: "score_pair 70 300 (subject_column ?a) = Some 70" "score_pair 70 300 (total_column ?a) = Some 300"
    "score_pair 70 280 (subject_column ?a) = Some 70" "score_pair 70 280 (total_column ?a) = Some 280"
    by (simp_all add: quadrant_analyzer_def score_pair_def)
  have m: "name ?m = ''line''" "subject_threshold ?m = 70" "total_threshold ?m = 280"
    by (simp_all add: add_custom_metric_def)
  from boundary_row_neither_reached [OF a(1) b(1,2), of ?m]
  obtain s1 s2 s3 s4 where res: "analyze_single_metric_grid ?a ?m
        = Some [(MetricQ ''line'' 1, s1), (MetricQ ''line'' 2, s2),
                (MetricQ ''line'' 3, s3), (MetricQ ''line'' 4, s4)]"
    and p: "score_pair 70 300 \<notin> set (students s1)" "score_pair 70 300 \<in> set (students s2)"
      "score_pair 70 300 \<notin> set (students s3)" "score_pair 70 300 \<notin> set (students s4)"
    unfolding m by auto
  from boundary_row_neither_reached [OF a(2) b(3,4), of ?m]
  obtain t1 t2 t3 t4 where res': "analyze_single_metric_grid ?a ?m
        = Some [(MetricQ ''line'' 1, t1), (MetricQ ''line'' 2, t2),
                (MetricQ ''line'' 3, t3), (MetricQ ''line'' 4, t4)]"
    and q: "score_pair 70 280 \<notin> set (students t1)" "score_pair 70 280 \<notin> set (students t2)"
      "score_pair 70 280 \<in> set (students t3)" "score_pair 70 280 \<notin> set (students t4)"
    unfolding m by auto
  from res res' have "t1 = s1" "t2 = s2" "t3 = s3" "t4 = s4" by simp_all
  with res p q show ?thesis by blast
qed

lemma sorted_presets:
  "sorted_metrics get_preset_metrics =
     [add_custom_metric zh_tekongxian 85 475, add_custom_metric zh_zhongdianxian 80 425,
      add_custom_metric zh_benkexian 75 375, add_custom_metric zh_baodixian 60 300]"
  by (simp add: sorted_metrics_def get_preset_metrics_def add_custom_metric_def)

text \<open>
  Claim C1 on the code. \<open>analyze_dual_metric_grid\<close> means to take the lower line as
  \<open>metric1\<close> (its comment says so) but swaps on the subject threshold only; the total
  thresholds follow the metrics unchecked. With the metrics A (subject 60, total 500)
  and B (subject 85, total 300) the lower subject cut comes with the higher total cut:
  the bands ``total above 300'' and ``total at most 500'' overlap, and the single valid
  row (70, 400) is counted in region 3 and in region 8. The region counts add up to 2,
  the number of valid rows is 1.
\<close>

theorem dual_grid_counts_row_twice:
  "region_counts (analyze_custom_quadrants (quadrant_analyzer [score_pair 70 400]
       [add_custom_metric ''A'' 60 500, add_custom_metric ''B'' 85 300]))
     = Some [(GridR 1, 0), (GridR 2, 0), (GridR 3, 1), (GridR 4, 0), (GridR 5, 0), (GridR 6, 0),
             (GridR 7, 0), (GridR 8, 1), (GridR 9, 0)]
   \<and> length (dropna [''subject'', ''total''] [score_pair 70 400]) = 1"
  by (simp add: region_counts_def analyze_custom_quadrants_def quadrant_analyzer_def score_pair_def
      add_custom_metric_def analyze_dual_metric_grid_def dropna_def dual_masks_def raw_stats_def
      nan_gt_def nan_le_def Let_def)

text \<open>
  Claim C8 on the code. With the four preset metrics the analysis builds the
  nine-region grid from the two metrics with the highest keys (85/475 and 80/425),
  not from the highest and the lowest (85/475 and 60/300): a row with subject 70 and
  total 400 lands in region 7, where the grid of the highest and the lowest metric
  puts it in region 4.
\<close>

theorem multi_metric_takes_two_highest:
  "analyze_custom_quadrants (quadrant_analyzer [score_pair 70 400] get_preset_metrics)
     = analyze_dual_metric_grid (quadrant_analyzer [score_pair 70 400] get_preset_metrics)
         (add_custom_metric zh_tekongxian 85 475) (add_custom_metric zh_zhongdianxian 80 425)
   \<and> region_counts (analyze_custom_quadrants (quadrant_analyzer [score_pair 70 400] get_preset_metrics))
     = Some [(GridR 1, 0), (GridR 2, 0), (GridR 3, 0), (GridR 4, 0), (GridR 5, 0), (GridR 6, 0),
             (GridR 7, 1), (GridR 8, 0), (GridR 9, 0)]
   \<and> region_counts (analyze_dual_metric_grid (quadrant_analyzer [score_pair 70 400] get_preset_metrics)
         (add_custom_metric zh_tekongxian 85 475) (add_custom_metric zh_baodixian 60 300))
     = Some [(GridR 1, 0), (GridR 2, 0), (GridR 3, 0), (GridR 4, 1), (GridR 5, 0), (GridR 6, 0),
             (GridR 7, 0), (GridR 8, 0), (GridR 9, 0)]"
proof -
  let ?a = "quadrant_analyzer [score_pair 70 400] get_preset_metrics"
  have len: "length (custom_metrics ?a) = 4" "custom_metrics ?a \<noteq> []"
    by (simp_all add: quadrant_analyzer_def get_preset_metrics_def)
  have srt: "sorted_metrics (custom_metrics ?a) =
     [add_custom_metric zh_tekongxian 85 475, add_custom_metric zh_zhongdianxian 80 425,
      add_custom_metric zh_benkexian 75 375, add_custom_metric zh_baodixian 60 300]"
    using sorted_presets by (simp add: quadrant_analyzer_def)
  have sel: "analyze_custom_quadrants ?a = analyze_dual_metric_grid ?a
         (add_custom_metric zh_tekongxian 85 475) (add_custom_metric zh_zhongdianxian 80 425)"
    using len by (simp add: analyze_custom_quadrants_def analyze_multi_metric_quadrants_def srt Let_def)
  have c1: "region_counts (analyze_dual_metric_grid ?a
         (add_custom_metric zh_tekongxian 85 475) (add_custom_metric zh_zhongdianxian 80 425))
     = Some [(GridR 1, 0), (GridR 2, 0), (GridR 3, 0), (GridR 4, 0), (GridR 5, 0), (GridR 6, 0),
             (GridR 7, 1), (GridR 8, 0), (GridR 9, 0)]"
    by (simp add: region_counts_def quadrant_analyzer_def score_pair_def
      add_custom_metric_def analyze_dual_metric_grid_def dropna_def dual_masks_def raw_stats_def
      nan_gt_def nan_le_def Let_def)
  have c2: "region_counts (analyze_dual_metric_grid ?a
         (add_custom_metric zh_tekongxian 85 475) (add_custom_metric zh_baodixian 60 300))
     = Some [(GridR 1, 0), (GridR 2, 0), (GridR 3, 0), (GridR 4, 1), (GridR 5, 0), (GridR 6, 0),
             (GridR 7, 0), (GridR 8, 0), (GridR 9, 0)]"
    by (simp add: region_counts_def quadrant_analyzer_def score_pair_def
      add_custom_metric_def analyze_dual_metric_grid_def dropna_def dual_masks_def raw_stats_def
      nan_gt_def nan_le_def Let_def)
  show ?thesis using sel c1 c2 by simp
qed

lemma pd_std_short: "length s < 2 \<Longrightarrow> pd_std s = None"
proof -
  have "length (notna_values s) \<le> length s" by (induction s rule: notna_values.induct) auto
  then show "length s < 2 \<Longrightarrow> pd_std s = None" by (simp add: pd_std_def Let_def)
qed

text \<open>
  Claim C10. A region of the single-metric classification with exactly one row has
  NaN as \<open>total_std\<close> and 0 as \<open>subject_std\<close>; a region of the nine-region grid with
  exactly one row has NaN as both standard deviations.
\<close>

theorem single_row_region_std:
  "(analyze_single_metric_grid a m = Some qs \<and> (k, s) \<in> set qs \<and> count s = 1
      \<longrightarrow> total_std s = None \<and> subject_std s = Some 0)
   \<and> (analyze_dual_metric_grid a m1 m2 = Inr (Some qs') \<and> (k', s') \<in> set qs' \<and> count s' = 1
      \<longrightarrow> subject_std s' = None \<and> total_std s' = None)"
proof (intro conjI impI)
  assume h: "analyze_single_metric_grid a m = Some qs \<and> (k, s) \<in> set qs \<and> count s = 1"
  then obtain l where s: "s = guarded_stats a (dropna [subject_column a, total_column a] (df a)) l"
    by (auto simp add: analyze_single_metric_grid_def Let_def split: if_splits)
  with h have l: "length l = 1" by simp
  show "total_std s = None" using l by (simp add: s guarded_stats_def pd_std_short column_def)
  show "subject_std s = Some 0" using l by (simp add: s guarded_stats_def safe_std_def column_def)
next
  assume h: "analyze_dual_metric_grid a m1 m2 = Inr (Some qs') \<and> (k', s') \<in> set qs' \<and> count s' = 1"
  then obtain l n where s: "s' = raw_stats a n l"
    by (auto simp add: analyze_dual_metric_grid_def Let_def split: if_splits)
  with h have l: "length l = 1" by (simp add: raw_stats_def)
  show "subject_std s' = None" using l by (simp add: s raw_stats_def pd_std_short column_def)
  show "total_std s' = None" using l by (simp add: s raw_stats_def pd_std_short column_def)
qed

text \<open>Claim C10 at a frame with a single row, for both analyses.\<close>

theorem single_row_region_std_witness:
  "(\<exists>qs s. analyze_single_metric_grid (quadrant_analyzer [score_pair 80 400] [])
               (add_custom_metric ''line'' 70 300) = Some qs
        \<and> (MetricQ ''line'' 1, s) \<in> set qs \<and> count s = 1
        \<and> total_std s = None \<and> subject_std s = Some 0)
   \<and> (\<exists>qs s. analyze_dual_metric_grid (quadrant_analyzer [score_pair 80 400] [])
               (add_custom_metric ''A'' 60 300) (add_custom_metric ''B'' 85 475) = Inr (Some qs)
        \<and> (GridR 4, s) \<in> set qs \<and> count s = 1
        \<and> subject_std s = None \<and> total_std s = None)"
proof -
  let ?a = "quadrant_analyzer [score_pair 80 400] []"
  let ?m = "add_custom_metric ''line'' 70 300"
  let ?m1 = "add_custom_metric ''A'' 60 300"
  let ?m2 = "add_custom_metric ''B'' 85 475"
  have clean: "dropna [subject_column ?a, total_column ?a] (df ?a) = [score_pair 80 400]"
    by (simp add: dropna_def score_pair_def quadrant_analyzer_def)
  obtain qs where qs: "analyze_single_metric_grid ?a ?m = Some qs"
    using clean by (simp add: analyze_single_metric_grid_def Let_def)
  have in1: "(MetricQ ''line'' 1, guarded_stats ?a [score_pair 80 400] [score_pair 80 400]) \<in> set qs"
    using qs clean
    by (simp add: single_grid_unfold Let_def)
       (auto simp add: add_custom_metric_def score_pair_def quadrant_analyzer_def
          series_sub_def nan_gt_def nan_le_def)
  obtain qs' where qs': "analyze_dual_metric_grid ?a ?m1 ?m2 = Inr (Some qs')"
    using clean by (simp add: analyze_dual_metric_grid_def Let_def add_custom_metric_def)
  have in4: "(GridR 4, raw_stats ?a 1 [score_pair 80 400]) \<in> set qs'"
    using qs' clean
    by (simp add: analyze_dual_metric_grid_def Let_def add_custom_metric_def dual_masks_def)
       (auto simp add: score_pair_def quadrant_analyzer_def nan_gt_def nan_le_def)
  have c1: "count (guarded_stats ?a [score_pair 80 400] [score_pair 80 400]) = 1"
    by (simp add: guarded_stats_def)
  have c4: "count (raw_stats ?a 1 [score_pair 80 400]) = 1"
    by (simp add: raw_stats_def)
  from single_row_region_std
         [of ?a ?m qs "MetricQ ''line'' 1" "guarded_stats ?a [score_pair 80 400] [score_pair 80 400]"
             ?m1 ?m2 qs' "GridR 4" "raw_stats ?a 1 [score_pair 80 400]"]
       qs in1 c1 qs' in4 c4
  show ?thesis by blast
qed

section \<open>Verified properties: goal-line evaluation\<close>








lemma school_hierarchy:
  "find_hierarchy_columns \<lparr> columns = [zh_xuexiao, ''total''], rows = rs \<rparr> = [(''school'', zh_xuexiao)]"
  by (simp add: find_hierarchy_columns_def zh_xuexiao_def zh_quxian_def zh_xingzhengban_def zh_banji_def)

text \<open>
  Claim C9 on the code. With a single row below the line nobody reaches it. The overall
  statistics carry mean, minimum and maximum 0 but a gap of 0, not of minus the line
  score; the statistics of the row's school carry the gap of minus the line score.
\<close>

theorem overall_gap_is_zero:
  "overall_summary (analyze_score_line_completion (school_analyzer [school_row ''S1'' 400])
       ''undergraduate'' ''total'' (Some [''school'']))
     = Some (Some 0, Some 0, Some 0, Some 0)
   \<and> group_summary (analyze_score_line_completion (school_analyzer [school_row ''S1'' 400])
       ''undergraduate'' ''total'' (Some [''school'']))
     = Some [(''school'', [(Str ''S1'', Some 0, Some 0, Some 0, Some (- 450))])]"
proof -
  have x: "school_row ''S1'' 400 zh_xuexiao = Str ''S1''" "school_row ''S1'' 400 ''total'' = Num 400"
    by (simp_all add: school_row_def zh_xuexiao_def)
  have cl: "clean_target ''total'' [school_row ''S1'' 400] = [school_row ''S1'' 400]"
    by (simp add: clean_target_def x is_number_def)
  show ?thesis
    by (simp add: overall_summary_def group_summary_def analyze_score_line_completion_def
        school_analyzer_def get_default_score_lines_def cl school_hierarchy Let_def
        line_basic_stats_def completed_students_def calculate_group_line_stats_def
        groupby_keys_def get_group_def x cell_ge_def)
qed

section \<open>Verified properties: hierarchical aggregation\<close>
















section \<open>Verified properties: subject combination\<close>

lemma codes_distinct:
  "distinct [zh_wu, zh_li, zh_hua, zh_sheng, zh_zheng, zh_di]"
  by (simp add: zh_wu_def zh_li_def zh_hua_def zh_sheng_def zh_zheng_def zh_di_def)

lemma codes_neq [simp]:
  "zh_wu \<noteq> zh_li" "zh_wu \<noteq> zh_hua" "zh_wu \<noteq> zh_sheng" "zh_wu \<noteq> zh_zheng" "zh_wu \<noteq> zh_di"
  "zh_li \<noteq> zh_wu" "zh_li \<noteq> zh_hua" "zh_li \<noteq> zh_sheng" "zh_li \<noteq> zh_zheng" "zh_li \<noteq> zh_di"
  "zh_hua \<noteq> zh_wu" "zh_hua \<noteq> zh_li" "zh_hua \<noteq> zh_sheng" "zh_hua \<noteq> zh_zheng" "zh_hua \<noteq> zh_di"
  "zh_sheng \<noteq> zh_wu" "zh_sheng \<noteq> zh_li" "zh_sheng \<noteq> zh_hua" "zh_sheng \<noteq> zh_zheng" "zh_sheng \<noteq> zh_di"
  "zh_zheng \<noteq> zh_wu" "zh_zheng \<noteq> zh_li" "zh_zheng \<noteq> zh_hua" "zh_zheng \<noteq> zh_sheng" "zh_zheng \<noteq> zh_di"
  "zh_di \<noteq> zh_wu" "zh_di \<noteq> zh_li" "zh_di \<noteq> zh_hua" "zh_di \<noteq> zh_sheng" "zh_di \<noteq> zh_zheng"
  using codes_distinct by auto

lemma standard_order_codes [simp]:
  "standard_order zh_wu = 0" "standard_order zh_li = 1" "standard_order zh_hua = 2"
  "standard_order zh_sheng = 3" "standard_order zh_zheng = 4" "standard_order zh_di = 5"
  by (simp_all add: standard_order_def)

lemma mapping_columns_codes:
  "mapping_columns zh_wu = [zh_wuli, zh_wuli @ zh_fenshu]"
  "mapping_columns zh_li = [zh_lishi, zh_lishi @ zh_fenshu]"
  by (simp_all add: mapping_columns_def subject_mapping_def)







section \<open>Verified properties: total-score synthesis\<close>

lemma length_notna_le: "length (notna_values s) \<le> length s"
  by (induction s rule: notna_values.induct) auto

lemma notna_values_append: "notna_values (xs @ ys) = notna_values xs @ notna_values ys"
  by (induction xs rule: notna_values.induct) auto

lemma compulsory_step_eq:
  "compulsory_step cols r x (s, n)
     = (case subject_score cols r x of None \<Rightarrow> (s, n) | Some v \<Rightarrow> (s + v, n + 1))"
  by (auto simp add: compulsory_step_def subject_score_def split: option.splits)

lemma valid_scores_Cons:
  "valid_scores cols r (x # xs)
     = (case subject_score cols r x of None \<Rightarrow> [] | Some v \<Rightarrow> [v]) @ valid_scores cols r xs"
  by (cases "subject_score cols r x") (simp_all add: valid_scores_def)

lemma fold_compulsory:
  "fold (compulsory_step cols r) subjects (s, n)
     = (s + sum_list (valid_scores cols r subjects), n + length (valid_scores cols r subjects))"
proof (induction subjects arbitrary: s n)
  case Nil
  then show ?case by (simp add: valid_scores_def)
next
  case (Cons x xs)
  show ?case
    by (cases "subject_score cols r x")
       (simp_all add: compulsory_step_eq valid_scores_Cons Cons.IH algebra_simps)
qed

lemma second_choice_step_eq:
  "map snd (second_choice_step cols r x acc)
     = map snd acc @ (case subject_score cols r x of None \<Rightarrow> [] | Some v \<Rightarrow> [v])"
  by (auto simp add: second_choice_step_def subject_score_def split: option.splits)

lemma fold_second_choices:
  "map snd (fold (second_choice_step cols r) subjects acc)
     = map snd acc @ valid_scores cols r subjects"
proof (induction subjects arbitrary: acc)
  case Nil
  then show ?case by (simp add: valid_scores_def)
next
  case (Cons x xs)
  show ?case
    by (simp add: Cons.IH second_choice_step_eq valid_scores_Cons)
qed

lemma fold_first_choice:
  "map_option snd (fold (first_choice_step cols r) [a, b] None)
     = (if valid_scores cols r [a, b] = [] then None else Some (Max (set (valid_scores cols r [a, b]))))"
  by (cases "subject_cell cols r a"; cases "subject_cell cols r b")
     (auto simp add: first_choice_step_def valid_scores_def subject_score_def max_def)

lemma fold_add_scores:
  "fold (\<lambda>cv st. (fst st + snd cv, snd st + 1)) xs (s, n)
     = (s + sum_list (map snd xs), n + length xs)"
  by (induction xs arbitrary: s n) (auto simp add: algebra_simps)

lemma sort_key_descending:
  fixes xs :: "('a \<times> real) list"
  shows "map snd (sort_key (\<lambda>x. - snd x) xs) = rev (sort (map snd xs))"
proof -
  let ?ys = "map snd (sort_key (\<lambda>x. - snd x) xs)"
  have "sorted (map (\<lambda>x. - snd x) (sort_key (\<lambda>x. - snd x) xs))" by (rule sorted_sort_key)
  then have "sorted (map uminus ?ys)" by (simp add: comp_def)
  then have "sorted (rev ?ys)"
    by (simp add: sorted_wrt_map sorted_wrt_rev)
  moreover have "mset (rev ?ys) = mset (map snd xs)" by simp
  ultimately have "sort (map snd xs) = rev ?ys" by (rule properties_for_sort[rotated])
  then show ?thesis by simp
qed


lemma first_choice_total:
  "(case fold (first_choice_step cols r) [a, b] None of
      None \<Rightarrow> (s, n) | Some fc \<Rightarrow> (s + snd fc, n + 1))
     = (if valid_scores cols r [a, b] = [] then (s, n)
        else (s + Max (set (valid_scores cols r [a, b])), n + 1))"
  using fold_first_choice[of cols r a b]
  by (cases "fold (first_choice_step cols r) [a, b] None") (auto split: if_splits)

lemma total_eq_composite: "new_gaokao_total cols r = composite_total cols r"
proof -
  let ?c = "valid_scores cols r compulsory_subjects"
  let ?f = "valid_scores cols r first_choice_subjects"
  let ?e = "valid_scores cols r elective_subjects"
  define sc where "sc = fold (second_choice_step cols r) [zh_huaxue, zh_shengwu, zh_zhengzhi, zh_dili] []"
  define best_two where "best_two = take 2 (sort_key (\<lambda>x. - snd x) sc)"
  have sc: "map snd sc = ?e"
    unfolding sc_def elective_subjects_def
    by (simp add: fold_second_choices del: fold.simps)
  have best: "map snd best_two = take 2 (rev (sort ?e))"
    unfolding best_two_def by (simp add: take_map[symmetric] sort_key_descending sc)
  have "length best_two = min 2 (length sc)" unfolding best_two_def by simp
  moreover have "length sc = length ?e" using sc by (metis length_map)
  ultimately have len_best: "length best_two = min 2 (length ?e)" by simp
  have c1: "fold (compulsory_step cols r) [zh_yuwen, zh_shuxue, zh_yingyu] (0, 0)
              = (sum_list ?c, length ?c)"
    unfolding compulsory_subjects_def by (simp add: fold_compulsory del: fold.simps)
  have f1: "(case fold (first_choice_step cols r) [zh_wuli, zh_lishi] None of
               None \<Rightarrow> (sum_list ?c, length ?c)
             | Some fc \<Rightarrow> (sum_list ?c + snd fc, length ?c + 1))
            = (if ?f = [] then (sum_list ?c, length ?c)
               else (sum_list ?c + Max (set ?f), length ?c + 1))"
    unfolding first_choice_subjects_def by (rule first_choice_total)
  have len_c: "length ?c \<le> 3"
    using length_notna_le[of "map (subject_score cols r) compulsory_subjects"]
    by (simp add: valid_scores_def compulsory_subjects_def)
  have step3: "fold (\<lambda>cv st. (fst st + snd cv, snd st + 1)) best_two (s, n)
                 = (s + sum_list (map snd best_two), n + length best_two)" for s :: real and n :: nat
    by (rule fold_add_scores)
  have total: "new_gaokao_total cols r =
     (if ?f = []
      then (if length ?c + length best_two \<ge> 6
            then Some (sum_list ?c + sum_list (map snd best_two)) else None)
      else (if length ?c + 1 + length best_two \<ge> 6
            then Some (sum_list ?c + Max (set ?f) + sum_list (map snd best_two)) else None))"
  proof (cases "?f = []")
    case True
    show ?thesis
      unfolding new_gaokao_total_def Let_def sc_def[symmetric] best_two_def[symmetric] c1 prod.case f1
      by (simp only: step3) (simp add: True)
  next
    case False
    show ?thesis
      unfolding new_gaokao_total_def Let_def sc_def[symmetric] best_two_def[symmetric] c1 prod.case f1
      by (simp only: step3) (simp add: False)
  qed
  have eq: "new_gaokao_total cols r = composite_total cols r"
    unfolding total composite_total_def Let_def best len_best
    using len_c by (auto simp add: min_def)
  show ?thesis by (rule eq)
qed

lemma composite_needs_six:
  assumes "length (valid_scores cols r (compulsory_subjects @ first_choice_subjects @ elective_subjects)) < 6"
  shows "composite_total cols r = None"
proof -
  let ?c = "valid_scores cols r compulsory_subjects"
  let ?f = "valid_scores cols r first_choice_subjects"
  let ?e = "valid_scores cols r elective_subjects"
  have app: "valid_scores cols r (compulsory_subjects @ first_choice_subjects @ elective_subjects)
     = ?c @ ?f @ ?e"
    by (simp add: valid_scores_def notna_values_append)
  have "length ?c + length ?f + length ?e < 6" using assms by (simp add: app)
  moreover have "length ?f \<ge> 1" if "?f \<noteq> []" using that by (cases ?f) auto
  ultimately have "\<not> (length ?c = 3 \<and> ?f \<noteq> [] \<and> length ?e \<ge> 2)" by fastforce
  then show ?thesis unfolding composite_total_def Let_def by simp
qed

text \<open>
  Claim C7. The total that the 3+1+2 synthesis computes for a student is the composite
  of the spec: the sum of the three compulsory scores, the higher first-choice score
  and the two highest elective scores when all six are there, and NaN otherwise. In
  particular it is NaN for a student with fewer than six valid scores among the nine
  subjects. The new column of \<open>calculate_total_score\<close> holds this total for every row.
\<close>

theorem new_gaokao_total_is_composite:
  "new_gaokao_total cols r = composite_total cols r
   \<and> (length (valid_scores cols r (compulsory_subjects @ first_choice_subjects @ elective_subjects)) < 6
        \<longrightarrow> new_gaokao_total cols r = None)
   \<and> (num_rows f \<noteq> [] \<and> find_subject_columns f \<noteq> [] \<longrightarrow>
        calculate_total_score f ''new_gaokao''
          = Inr (Some (map (composite_total (find_subject_columns f)) (num_rows f))))"
proof (intro conjI impI)
  show "new_gaokao_total cols r = composite_total cols r" by (rule total_eq_composite)
  show "new_gaokao_total cols r = None"
    if "length (valid_scores cols r (compulsory_subjects @ first_choice_subjects @ elective_subjects)) < 6"
    using composite_needs_six[OF that] by (simp add: total_eq_composite)
  assume a: "num_rows f \<noteq> [] \<and> find_subject_columns f \<noteq> []"
  then have "num_columns f \<noteq> []" by (auto simp add: find_subject_columns_def)
  with a show "calculate_total_score f ''new_gaokao''
          = Inr (Some (map (composite_total (find_subject_columns f)) (num_rows f)))"
    by (simp add: calculate_total_score_def Let_def total_eq_composite)
qed

lemma example_subject_columns:
  "find_subject_columns \<lparr> num_columns = subject_columns_example, num_rows = rs \<rparr>
     = subject_columns_example"
  by code_simp

text \<open>Claim C7 at a complete row (total 570) and at a row without a mathematics
  score and with one elective only (total NaN).\<close>

theorem new_gaokao_total_is_composite_witness:
  "new_gaokao_total subject_columns_example
      (scores_row [Some 110, Some 120, Some 100, Some 80, None, Some 70, Some 65, Some 90, None])
     = Some 570
   \<and> length (valid_scores subject_columns_example
        (scores_row [Some 110, None, Some 100, Some 80, None, Some 70, None, None, None])
        (compulsory_subjects @ first_choice_subjects @ elective_subjects)) < 6
   \<and> new_gaokao_total subject_columns_example
        (scores_row [Some 110, None, Some 100, Some 80, None, Some 70, None, None, None]) = None
   \<and> calculate_total_score
        \<lparr> num_columns = subject_columns_example,
          num_rows = [scores_row [Some 110, Some 120, Some 100, Some 80, None, Some 70, Some 65, Some 90, None],
                      scores_row [Some 110, None, Some 100, Some 80, None, Some 70, None, None, None]] \<rparr>
        ''new_gaokao''
      = Inr (Some [Some 570, None])"
proof -
  let ?r1 = "scores_row [Some 110, Some 120, Some 100, Some 80, None, Some 70, Some 65, Some 90, None]"
  let ?r2 = "scores_row [Some 110, None, Some 100, Some 80, None, Some 70, None, None, None]"
  let ?f = "\<lparr> num_columns = subject_columns_example, num_rows = [?r1, ?r2] \<rparr>"
  have a: "composite_total subject_columns_example ?r1 = Some 570"
    by code_simp
  have b: "length (valid_scores subject_columns_example ?r2
        (compulsory_subjects @ first_choice_subjects @ elective_subjects)) < 6"
    by code_simp
  have c: "composite_total subject_columns_example ?r2 = None"
    by code_simp
  have d: "num_rows ?f \<noteq> [] \<and> find_subject_columns ?f \<noteq> []"
    by (simp add: example_subject_columns) (simp add: subject_columns_example_def)
  have e: "map (composite_total (find_subject_columns ?f)) (num_rows ?f) = [Some 570, None]"
    by (simp add: example_subject_columns a c)
  from new_gaokao_total_is_composite [of subject_columns_example ?r1 ?f]
       new_gaokao_total_is_composite [of subject_columns_example ?r2 ?f]
       a b d e
  show ?thesis by metis
qed

end
